theory Spec2Isabelle
  imports Complex_Main
begin

section \<open>The heartbeat handler of \<^verbatim>\<open>src/poller/main.py\<close>\<close>

text \<open>
  The whole program is one Python 3 function:
  \<^verbatim>\<open>
  def lambda_handler(event, context):
      return {
          "status": "ok",
          "message": "ingestor heartbeat",
          "time": int(time.time()),
          "event_preview": str(event)[:200]
      }
  \<close>
  It calls three builtins (\<^verbatim>\<open>time.time\<close>, \<^verbatim>\<open>int\<close>, \<^verbatim>\<open>str\<close>), slices a string and
  builds a dict. The embedding below gives each of them a HOL definition and
  then the handler itself.
\<close>

subsection \<open>Python values\<close>

text \<open>
  A Python \<^verbatim>\<open>str\<close> is a sequence of Unicode code points; \<^verbatim>\<open>len\<close> and slicing count
  code points, not bytes. A string is therefore a list of code points, and \<open>lit\<close>
  turns an ASCII literal of the source into one.
\<close>

type_synonym pystr = "nat list"

definition lit :: "string \<Rightarrow> pystr" where
  "lit s = map of_char s"

text \<open>
  Exceptions are values. \<open>ValueError\<close> is what \<^verbatim>\<open>str\<close> raises on an integer with
  more digits than the interpreter allows; anything else comes out of a
  user-defined \<^verbatim>\<open>__str__\<close> or \<^verbatim>\<open>__repr__\<close> and is carried by its class name.
\<close>

datatype py_error = ValueError | TypeError | OtherException string

text \<open>
  The event is whatever the caller passes. The cases are the values a JSON
  document decodes to (\<^verbatim>\<open>None\<close>, booleans, integers, strings, lists, dicts; a
  dict keeps its items in insertion order) and, for everything else (floats,
  tuples, instances of user classes), an object known only by what its
  \<^verbatim>\<open>__str__\<close> and its \<^verbatim>\<open>__repr__\<close> do: return a string or raise. Values are
  finite trees: cyclic containers and the exhaustion of memory or of the
  interpreter's stack are outside the model.
\<close>

datatype pyval =
    PNone
  | PBool bool
  | PInt int
  | PStr pystr
  | PList "pyval list"
  | PDict "(pyval \<times> pyval) list"
  | PObject "py_error + pystr" "py_error + pystr"

text \<open>
  Two settings of the interpreter decide what \<^verbatim>\<open>repr\<close> prints:
  \<^verbatim>\<open>sys.get_int_max_str_digits()\<close> (0 switches the limit off, as in interpreters
  older than 3.11) and the Unicode table behind \<^verbatim>\<open>str.isprintable\<close>. Both are
  parameters of the model.
\<close>

record py_runtime =
  int_max_str_digits :: nat
  isprintable :: "nat \<Rightarrow> bool"

definition example_runtime :: py_runtime where
  "example_runtime = \<lparr>int_max_str_digits = 4300, isprintable = (\<lambda>c. False)\<rparr>"

subsection \<open>\<^verbatim>\<open>repr\<close> and \<^verbatim>\<open>str\<close>\<close>

fun digits10 :: "nat \<Rightarrow> pystr" where
  "digits10 n = (if n < 10 then [48 + n] else digits10 (n div 10) @ [48 + n mod 10])"

declare digits10.simps [simp del]

definition py_repr_int :: "py_runtime \<Rightarrow> int \<Rightarrow> py_error + pystr" where
  "py_repr_int rt i =
     (let ds = digits10 (nat \<bar>i\<bar>) in
      if 0 < int_max_str_digits rt \<and> int_max_str_digits rt < length ds then Inl ValueError
      else Inr (if i < 0 then 45 # ds else ds))"

definition hex_digit :: "nat \<Rightarrow> nat" where
  "hex_digit d = (if d < 10 then 48 + d else 87 + d)"

fun hex_fixed :: "nat \<Rightarrow> nat \<Rightarrow> pystr" where
  "hex_fixed 0 n = []"
| "hex_fixed (Suc w) n = hex_fixed w (n div 16) @ [hex_digit (n mod 16)]"

text \<open>
  One character of the \<^verbatim>\<open>repr\<close> of a string. Code points: 92 is the backslash,
  9, 10 and 13 are tab, line feed and carriage return (printed as \<^verbatim>\<open>\t\<close>, \<^verbatim>\<open>\n\<close>,
  \<^verbatim>\<open>\r\<close>: 116, 110, 114), 120, 117 and 85 are the letters of the \<^verbatim>\<open>\x\<close>, \<^verbatim>\<open>\u\<close> and
  \<^verbatim>\<open>\U\<close> escapes.
\<close>

definition repr_char :: "(nat \<Rightarrow> bool) \<Rightarrow> nat \<Rightarrow> nat \<Rightarrow> pystr" where
  "repr_char printable quote ch =
     (if ch = quote \<or> ch = 92 then [92, ch]
      else if ch = 9 then [92, 116]
      else if ch = 10 then [92, 110]
      else if ch = 13 then [92, 114]
      else if ch < 32 \<or> ch = 127 then [92, 120] @ hex_fixed 2 ch
      else if ch < 127 then [ch]
      else if printable ch then [ch]
      else if ch \<le> 255 then [92, 120] @ hex_fixed 2 ch
      else if ch \<le> 65535 then [92, 117] @ hex_fixed 4 ch
      else [92, 85] @ hex_fixed 8 ch)"

text \<open>
  The quote is the apostrophe (39) unless the string holds an apostrophe and no
  double quote (34).
\<close>

definition py_repr_str :: "(nat \<Rightarrow> bool) \<Rightarrow> pystr \<Rightarrow> pystr" where
  "py_repr_str printable s =
     (let quote = (if 39 \<in> set s \<and> 34 \<notin> set s then 34 else 39)
      in quote # concat (map (repr_char printable quote) s) @ [quote])"

text \<open>
  A container prints its elements from left to right and stops at the first
  one whose \<^verbatim>\<open>repr\<close> raises.
\<close>

fun sequence_results :: "(py_error + 'a) list \<Rightarrow> py_error + 'a list" where
  "sequence_results [] = Inr []"
| "sequence_results (Inl e # rs) = Inl e"
| "sequence_results (Inr x # rs) =
     (case sequence_results rs of Inl e \<Rightarrow> Inl e | Inr xs \<Rightarrow> Inr (x # xs))"

fun join_with :: "pystr \<Rightarrow> pystr list \<Rightarrow> pystr" where
  "join_with sep [] = []"
| "join_with sep [x] = x"
| "join_with sep (x # y # ys) = x @ sep @ join_with sep (y # ys)"

fun repr_item :: "(py_error + pystr) \<times> (py_error + pystr) \<Rightarrow> py_error + pystr" where
  "repr_item (Inl e, vr) = Inl e"
| "repr_item (Inr ks, Inl e) = Inl e"
| "repr_item (Inr ks, Inr vs) = Inr (ks @ lit '': '' @ vs)"

primrec py_repr :: "py_runtime \<Rightarrow> pyval \<Rightarrow> py_error + pystr" where
  "py_repr rt PNone = Inr (lit ''None'')"
| "py_repr rt (PBool b) = Inr (if b then lit ''True'' else lit ''False'')"
| "py_repr rt (PInt i) = py_repr_int rt i"
| "py_repr rt (PStr s) = Inr (py_repr_str (isprintable rt) s)"
| "py_repr rt (PList xs) =
     (case sequence_results (map (py_repr rt) xs) of
        Inl e \<Rightarrow> Inl e
      | Inr rs \<Rightarrow> Inr (lit ''['' @ join_with (lit '', '') rs @ lit '']''))"
| "py_repr rt (PDict kvs) =
     (case sequence_results (map repr_item (map (map_prod (py_repr rt) (py_repr rt)) kvs)) of
        Inl e \<Rightarrow> Inl e
      | Inr rs \<Rightarrow> Inr (lit ''{'' @ join_with (lit '', '') rs @ lit ''}''))"
| "py_repr rt (PObject s r) = r"

text \<open>
  \<^verbatim>\<open>str(x)\<close>: a string is returned as it is, an object answers with its
  \<^verbatim>\<open>__str__\<close>, every other value prints as its \<^verbatim>\<open>repr\<close>.
\<close>

definition py_str :: "py_runtime \<Rightarrow> pyval \<Rightarrow> py_error + pystr" where
  "py_str rt v =
     (case v of
        PStr s \<Rightarrow> Inr s
      | PObject s r \<Rightarrow> s
      | _ \<Rightarrow> py_repr rt v)"

subsection \<open>Slicing, truncation to an integer, dict displays\<close>

text \<open>
  \<^verbatim>\<open>s[:stop]\<close> for a non-negative \<^verbatim>\<open>stop\<close>: the stop is clipped to the length and
  the characters at the indices \<^verbatim>\<open>0, 1, ..., stop - 1\<close> are collected. It never
  raises.
\<close>

definition slice_to :: "nat \<Rightarrow> 'a list \<Rightarrow> 'a list" where
  "slice_to stop s = map (\<lambda>i. s ! i) [0..<min stop (length s)]"

text \<open>
  \<^verbatim>\<open>time.time()\<close> returns a finite double, which is a rational number, and
  \<^verbatim>\<open>int\<close> of a finite double is exact: the sign is set aside, the magnitude is
  cut to its integer part, the sign is put back. The clock reading is an input
  of the model.
\<close>

definition py_int_of_float :: "rat \<Rightarrow> int" where
  "py_int_of_float x = (if x < 0 then - \<lfloor>- x\<rfloor> else \<lfloor>x\<rfloor>)"

text \<open>
  A dict display \<^verbatim>\<open>{k1: v1, k2: v2, ...}\<close> stores its items from left to right;
  storing under a key that is already present replaces the value and keeps the
  position.
\<close>

fun dict_setitem :: "(pyval \<times> pyval) list \<Rightarrow> pyval \<Rightarrow> pyval \<Rightarrow> (pyval \<times> pyval) list" where
  "dict_setitem [] k v = [(k, v)]"
| "dict_setitem ((k', v') # kvs) k v =
     (if k' = k then (k', v) # kvs else (k', v') # dict_setitem kvs k v)"

definition dict_display :: "(pyval \<times> pyval) list \<Rightarrow> pyval" where
  "dict_display items = PDict (foldl (\<lambda>d (k, v). dict_setitem d k v) [] items)"

text \<open>
  How a caller reads the result: \<open>field r name\<close> is \<^verbatim>\<open>r[name]\<close>, with \<open>None\<close>
  where Python raises \<^verbatim>\<open>KeyError\<close> or \<open>r\<close> is no dict, and \<open>keys r\<close> is
  \<^verbatim>\<open>list(r.keys())\<close>.
\<close>

fun field :: "pyval \<Rightarrow> string \<Rightarrow> pyval option" where
  "field (PDict kvs) name = map_of kvs (PStr (lit name))"
| "field _ name = None"

fun keys :: "pyval \<Rightarrow> pyval list option" where
  "keys (PDict kvs) = Some (map fst kvs)"
| "keys _ = None"

subsection \<open>The handler\<close>

text \<open>
  \<open>lambda_handler rt now event context\<close>: \<open>rt\<close> is the interpreter's setting and
  \<open>now\<close> what \<^verbatim>\<open>time.time()\<close> returns during the call. The display evaluates
  \<^verbatim>\<open>int(time.time())\<close> before \<^verbatim>\<open>str(event)[:200]\<close>; only the latter can raise, and the
  exception leaves the handler.
\<close>

definition lambda_handler :: "py_runtime \<Rightarrow> rat \<Rightarrow> pyval \<Rightarrow> pyval \<Rightarrow> py_error + pyval" where
  "lambda_handler rt now event context =
     (let t = py_int_of_float now in
      case py_str rt event of
        Inl e \<Rightarrow> Inl e
      | Inr s \<Rightarrow>
          Inr (dict_display
            [(PStr (lit ''status''), PStr (lit ''ok'')),
             (PStr (lit ''message''), PStr (lit ''ingestor heartbeat'')),
             (PStr (lit ''time''), PInt t),
             (PStr (lit ''event_preview''), PStr (slice_to 200 s))]))"

section \<open>Properties\<close>

subsection \<open>Auxiliary facts\<close>

lemma slice_to_take: "slice_to n s = take n s"
proof -
  have "take n s = take n (map (\<lambda>i. s ! i) [0..<length s])"
    by (simp add: map_nth)
  also have "\<dots> = map (\<lambda>i. s ! i) (take n [0..<length s])"
    by (simp only: take_map)
  also have "take n [0..<length s] = [0..<min n (length s)]"
    by (simp add: min_def)
  finally show ?thesis
    by (simp add: slice_to_def)
qed

lemma lambda_handler_returns:
  assumes "py_str rt event = Inr s"
  shows "lambda_handler rt now event context =
           Inr (PDict
             [(PStr (lit ''status''), PStr (lit ''ok'')),
              (PStr (lit ''message''), PStr (lit ''ingestor heartbeat'')),
              (PStr (lit ''time''), PInt (py_int_of_float now)),
              (PStr (lit ''event_preview''), PStr (take 200 s))])"
  using assms
  by (simp add: lambda_handler_def dict_display_def slice_to_take lit_def)

lemma lambda_handler_raises:
  assumes "py_str rt event = Inl e"
  shows "lambda_handler rt now event context = Inl e"
  using assms by (simp add: lambda_handler_def)

lemma lambda_handler_returned:
  assumes "lambda_handler rt now event context = Inr r"
  obtains s where "py_str rt event = Inr s"
    and "r = PDict
             [(PStr (lit ''status''), PStr (lit ''ok'')),
              (PStr (lit ''message''), PStr (lit ''ingestor heartbeat'')),
              (PStr (lit ''time''), PInt (py_int_of_float now)),
              (PStr (lit ''event_preview''), PStr (take 200 s))]"
proof (cases "py_str rt event")
  case (Inl e)
  with assms show ?thesis
    by (simp add: lambda_handler_raises)
next
  case (Inr s)
  with assms that show ?thesis
    by (simp add: lambda_handler_returns)
qed

lemma repr_char_nonempty: "1 \<le> length (repr_char printable quote ch)"
  by (simp add: repr_char_def)

lemma concat_repr_char_length:
  "length s \<le> length (concat (map (repr_char printable quote) s))"
proof (induction s)
  case Nil
  show ?case by simp
next
  case (Cons c s)
  have "1 \<le> length (repr_char printable quote c)"
    by (rule repr_char_nonempty)
  with Cons show ?case by simp
qed

lemma repr_of_string_is_quoted:
  "\<exists>q body. py_repr rt (PStr s) = Inr (q # body @ [q]) \<and> (q = 39 \<or> q = 34) \<and>
     length s \<le> length body"
  by (simp add: py_repr_str_def Let_def concat_repr_char_length)

subsection \<open>The claims\<close>

text \<open>
  C1. Whenever the handler returns, the \<^verbatim>\<open>status\<close> field of the record it returns
  is the string \<^verbatim>\<open>ok\<close> and the \<^verbatim>\<open>message\<close> field is the string
  \<^verbatim>\<open>ingestor heartbeat\<close>, whatever the event, the context, the clock and the
  interpreter's settings are.
\<close>

theorem returned_status_and_message:
  assumes "lambda_handler rt now event context = Inr r"
  shows "field r ''status'' = Some (PStr (lit ''ok'')) \<and>
         field r ''message'' = Some (PStr (lit ''ingestor heartbeat''))"
proof -
  from assms obtain s where
    "r = PDict
       [(PStr (lit ''status''), PStr (lit ''ok'')),
        (PStr (lit ''message''), PStr (lit ''ingestor heartbeat'')),
        (PStr (lit ''time''), PInt (py_int_of_float now)),
        (PStr (lit ''event_preview''), PStr (take 200 s))]"
    by (rule lambda_handler_returned)
  then show ?thesis
    by (simp add: lit_def)
qed

theorem returned_status_and_message_witness:
  "lambda_handler example_runtime 0 PNone PNone =
     Inr (PDict
       [(PStr (lit ''status''), PStr (lit ''ok'')),
        (PStr (lit ''message''), PStr (lit ''ingestor heartbeat'')),
        (PStr (lit ''time''), PInt 0),
        (PStr (lit ''event_preview''), PStr (lit ''None''))]) \<and>
   field (PDict
       [(PStr (lit ''status''), PStr (lit ''ok'')),
        (PStr (lit ''message''), PStr (lit ''ingestor heartbeat'')),
        (PStr (lit ''time''), PInt 0),
        (PStr (lit ''event_preview''), PStr (lit ''None''))]) ''status'' = Some (PStr (lit ''ok'')) \<and>
   field (PDict
       [(PStr (lit ''status''), PStr (lit ''ok'')),
        (PStr (lit ''message''), PStr (lit ''ingestor heartbeat'')),
        (PStr (lit ''time''), PInt 0),
        (PStr (lit ''event_preview''), PStr (lit ''None''))]) ''message'' =
     Some (PStr (lit ''ingestor heartbeat''))"
proof -
  have h: "lambda_handler example_runtime 0 PNone PNone =
     Inr (PDict
       [(PStr (lit ''status''), PStr (lit ''ok'')),
        (PStr (lit ''message''), PStr (lit ''ingestor heartbeat'')),
        (PStr (lit ''time''), PInt 0),
        (PStr (lit ''event_preview''), PStr (lit ''None''))])"
    by (simp add: lambda_handler_def dict_display_def slice_to_take py_str_def
        py_int_of_float_def lit_def)
  show ?thesis
    using h returned_status_and_message [OF h] by simp
qed

text \<open>
  C2. If the text \<^verbatim>\<open>str(event)\<close> has at most 200 characters, the handler returns
  and the \<^verbatim>\<open>event_preview\<close> field is that whole text.
\<close>

theorem short_event_preview_is_whole_text:
  assumes "py_str rt event = Inr s" and "length s \<le> 200"
  shows "\<exists>r. lambda_handler rt now event context = Inr r \<and>
             field r ''event_preview'' = Some (PStr s)"
  using assms by (simp add: lambda_handler_returns lit_def)

theorem short_event_preview_is_whole_text_witness:
  "py_str example_runtime (PDict [(PStr (lit ''a''), PInt 1)]) = Inr (lit ''{'a': 1}'') \<and>
   length (lit ''{'a': 1}'') \<le> 200 \<and>
   (\<exists>r. lambda_handler example_runtime 1762282800 (PDict [(PStr (lit ''a''), PInt 1)]) PNone = Inr r \<and>
        field r ''event_preview'' = Some (PStr (lit ''{'a': 1}'')))"
proof -
  have s: "py_str example_runtime (PDict [(PStr (lit ''a''), PInt 1)]) = Inr (lit ''{'a': 1}'')"
    by (simp add: py_str_def py_repr_int_def py_repr_str_def repr_char_def example_runtime_def
        digits10.simps lit_def)
  have l: "length (lit ''{'a': 1}'') \<le> 200"
    by (simp add: lit_def)
  show ?thesis
    using s l short_event_preview_is_whole_text [OF s l, of 1762282800 PNone] by simp
qed

text \<open>
  C3. If the text \<^verbatim>\<open>str(event)\<close> has more than 200 characters, the handler
  returns and the \<^verbatim>\<open>event_preview\<close> field is exactly the first 200 characters of
  that text.
\<close>

theorem long_event_preview_is_prefix:
  assumes "py_str rt event = Inr s" and "200 < length s"
  shows "\<exists>r. lambda_handler rt now event context = Inr r \<and>
             field r ''event_preview'' = Some (PStr (take 200 s)) \<and>
             length (take 200 s) = 200"
  using assms by (simp add: lambda_handler_returns lit_def)

theorem long_event_preview_is_prefix_witness:
  "py_str example_runtime (PStr (replicate 500 120)) = Inr (replicate 500 120) \<and>
   200 < length (replicate 500 (120::nat)) \<and>
   (\<exists>r. lambda_handler example_runtime 1762282800 (PStr (replicate 500 120)) PNone = Inr r \<and>
        field r ''event_preview'' = Some (PStr (replicate 200 120)) \<and>
        length (replicate 200 (120::nat)) = 200)"
proof -
  have s: "py_str example_runtime (PStr (replicate 500 120)) = Inr (replicate 500 120)"
    by (simp add: py_str_def)
  have l: "200 < length (replicate 500 (120::nat))"
    by simp
  show ?thesis
    using s l long_event_preview_is_prefix [OF s l, of 1762282800 PNone] by simp
qed

text \<open>
  C4. The \<^verbatim>\<open>time\<close> field of a returned record is an integer \<open>t\<close>, the clock
  reading cut to its integer part: \<open>t\<close> has the sign of the reading, its magnitude
  is not above the reading's, and the two magnitudes differ by less than one
  second. For a reading \<open>now \<ge> 0\<close> this says \<open>t \<le> now < t + 1\<close>.
\<close>

theorem time_is_truncated_clock:
  assumes "lambda_handler rt now event context = Inr r"
  shows "\<exists>t. field r ''time'' = Some (PInt t) \<and>
             \<bar>of_int t\<bar> \<le> \<bar>now\<bar> \<and> \<bar>now\<bar> < \<bar>of_int t\<bar> + 1 \<and> 0 \<le> of_int t * now"
proof -
  from assms obtain s where
    r: "r = PDict
       [(PStr (lit ''status''), PStr (lit ''ok'')),
        (PStr (lit ''message''), PStr (lit ''ingestor heartbeat'')),
        (PStr (lit ''time''), PInt (py_int_of_float now)),
        (PStr (lit ''event_preview''), PStr (take 200 s))]"
    by (rule lambda_handler_returned)
  have f: "field r ''time'' = Some (PInt (py_int_of_float now))"
    by (simp add: r lit_def)
  have t: "\<bar>of_int (py_int_of_float now)\<bar> \<le> \<bar>now\<bar> \<and>
           \<bar>now\<bar> < \<bar>of_int (py_int_of_float now)\<bar> + 1 \<and>
           0 \<le> of_int (py_int_of_float now) * now"
  proof (cases "now < 0")
    case True
    then have "0 \<le> \<lfloor>- now\<rfloor>" by simp
    moreover have "of_int \<lfloor>- now\<rfloor> \<le> - now" by linarith
    moreover have "- now < of_int \<lfloor>- now\<rfloor> + 1" by linarith
    moreover have "rat_of_int \<lfloor>- now\<rfloor> * now \<le> 0"
      using True by (intro mult_nonneg_nonpos) simp_all
    ultimately show ?thesis
      using True by (simp add: py_int_of_float_def)
  next
    case False
    then have "0 \<le> \<lfloor>now\<rfloor>" by simp
    moreover have "of_int \<lfloor>now\<rfloor> \<le> now" by linarith
    moreover have "now < of_int \<lfloor>now\<rfloor> + 1" by linarith
    ultimately show ?thesis
      using False by (simp add: py_int_of_float_def)
  qed
  from f t show ?thesis by blast
qed

theorem time_is_truncated_clock_witness:
  "lambda_handler example_runtime 1762282800.75 PNone PNone =
     Inr (PDict
       [(PStr (lit ''status''), PStr (lit ''ok'')),
        (PStr (lit ''message''), PStr (lit ''ingestor heartbeat'')),
        (PStr (lit ''time''), PInt 1762282800),
        (PStr (lit ''event_preview''), PStr (lit ''None''))]) \<and>
   (\<exists>t. field (PDict
       [(PStr (lit ''status''), PStr (lit ''ok'')),
        (PStr (lit ''message''), PStr (lit ''ingestor heartbeat'')),
        (PStr (lit ''time''), PInt 1762282800),
        (PStr (lit ''event_preview''), PStr (lit ''None''))]) ''time'' = Some (PInt t) \<and>
      \<bar>of_int t\<bar> \<le> \<bar>1762282800.75 :: rat\<bar> \<and>
      \<bar>1762282800.75 :: rat\<bar> < \<bar>of_int t\<bar> + 1 \<and>
      0 \<le> of_int t * (1762282800.75 :: rat))"
proof -
  have t: "py_int_of_float 1762282800.75 = 1762282800"
    by code_simp
  have s: "py_str example_runtime PNone = Inr (lit ''None'')"
    by (simp add: py_str_def)
  have h: "lambda_handler example_runtime 1762282800.75 PNone PNone =
     Inr (PDict
       [(PStr (lit ''status''), PStr (lit ''ok'')),
        (PStr (lit ''message''), PStr (lit ''ingestor heartbeat'')),
        (PStr (lit ''time''), PInt 1762282800),
        (PStr (lit ''event_preview''), PStr (lit ''None''))])"
    using lambda_handler_returns [OF s, of "1762282800.75" PNone]
    unfolding t by (simp add: lit_def)
  show ?thesis
    using h time_is_truncated_clock [OF h] by simp
qed

text \<open>
  C5. If \<^verbatim>\<open>str(event)\<close> succeeds, the handler raises nothing and returns a
  record. (\<open>lambda_handler_raises\<close> above is the other direction: an exception of
  \<^verbatim>\<open>str(event)\<close> leaves the handler as it is.)
\<close>

theorem returns_when_str_succeeds:
  assumes "py_str rt event = Inr s"
  shows "\<exists>r. lambda_handler rt now event context = Inr r"
  using assms by (simp add: lambda_handler_returns)

theorem returns_when_str_succeeds_witness:
  "py_str example_runtime (PList [PBool True, PNone]) = Inr (lit ''[True, None]'') \<and>
   (\<exists>r. lambda_handler example_runtime 1762282800 (PList [PBool True, PNone]) PNone = Inr r)"
proof -
  have s: "py_str example_runtime (PList [PBool True, PNone]) = Inr (lit ''[True, None]'')"
    by (simp add: py_str_def lit_def)
  show ?thesis
    using s returns_when_str_succeeds [OF s, of 1762282800 PNone] by simp
qed

text \<open>
  C6. A returned record is a dict whose keys are \<^verbatim>\<open>status\<close>, \<^verbatim>\<open>message\<close>,
  \<^verbatim>\<open>time\<close> and \<^verbatim>\<open>event_preview\<close>, in this order, four different keys and no
  others.
\<close>

theorem result_has_exactly_four_keys:
  assumes "lambda_handler rt now event context = Inr r"
  shows "keys r = Some [PStr (lit ''status''), PStr (lit ''message''),
                        PStr (lit ''time''), PStr (lit ''event_preview'')] \<and>
         distinct [PStr (lit ''status''), PStr (lit ''message''),
                   PStr (lit ''time''), PStr (lit ''event_preview'')]"
proof -
  from assms obtain s where
    "r = PDict
       [(PStr (lit ''status''), PStr (lit ''ok'')),
        (PStr (lit ''message''), PStr (lit ''ingestor heartbeat'')),
        (PStr (lit ''time''), PInt (py_int_of_float now)),
        (PStr (lit ''event_preview''), PStr (take 200 s))]"
    by (rule lambda_handler_returned)
  then show ?thesis
    by (simp add: lit_def)
qed

theorem result_has_exactly_four_keys_witness:
  "lambda_handler example_runtime 1762282800 (PInt (- 42)) PNone =
     Inr (PDict
       [(PStr (lit ''status''), PStr (lit ''ok'')),
        (PStr (lit ''message''), PStr (lit ''ingestor heartbeat'')),
        (PStr (lit ''time''), PInt 1762282800),
        (PStr (lit ''event_preview''), PStr (lit ''-42''))]) \<and>
   keys (PDict
       [(PStr (lit ''status''), PStr (lit ''ok'')),
        (PStr (lit ''message''), PStr (lit ''ingestor heartbeat'')),
        (PStr (lit ''time''), PInt 1762282800),
        (PStr (lit ''event_preview''), PStr (lit ''-42''))]) =
     Some [PStr (lit ''status''), PStr (lit ''message''),
           PStr (lit ''time''), PStr (lit ''event_preview'')] \<and>
   distinct [PStr (lit ''status''), PStr (lit ''message''),
             PStr (lit ''time''), PStr (lit ''event_preview'')]"
proof -
  have s: "py_str example_runtime (PInt (- 42)) = Inr (lit ''-42'')"
    by (simp add: py_str_def py_repr_int_def example_runtime_def digits10.simps lit_def)
  have h: "lambda_handler example_runtime 1762282800 (PInt (- 42)) PNone =
     Inr (PDict
       [(PStr (lit ''status''), PStr (lit ''ok'')),
        (PStr (lit ''message''), PStr (lit ''ingestor heartbeat'')),
        (PStr (lit ''time''), PInt 1762282800),
        (PStr (lit ''event_preview''), PStr (lit ''-42''))])"
    by (simp add: lambda_handler_returns [OF s] py_int_of_float_def lit_def)
  show ?thesis
    using h result_has_exactly_four_keys [OF h] by simp
qed

text \<open>
  C7. The outcome of the handler (the record or the exception) does not depend
  on the context argument: two calls with the same event and clock reading and
  any two contexts have the same outcome.
\<close>

theorem context_is_ignored:
  "lambda_handler rt now event c1 = lambda_handler rt now event c2"
  by (simp add: lambda_handler_def)

text \<open>
  C9. Called with the empty dict as event, the handler returns a record whose
  \<^verbatim>\<open>event_preview\<close> field is the two-character string \<^verbatim>\<open>{}\<close>.
\<close>

theorem empty_dict_event_preview:
  "\<exists>r. lambda_handler rt now (PDict []) context = Inr r \<and>
       field r ''event_preview'' = Some (PStr (lit ''{}'')) \<and>
       length (lit ''{}'') = 2"
proof -
  have "py_str rt (PDict []) = Inr (lit ''{}'')"
    by (simp add: py_str_def lit_def)
  then show ?thesis
    by (simp add: lambda_handler_returns lit_def)
qed

text \<open>
  C10. For an event that is itself a string, \<^verbatim>\<open>str\<close> is the identity and the
  \<^verbatim>\<open>event_preview\<close> field is the first 200 characters of that string as they
  are: no quotes are put around it and nothing is escaped
  (\<open>repr_of_string_is_quoted\<close> above shows what \<^verbatim>\<open>repr\<close> would have added). The
  preview is a debug text, not a JSON document: the preview of the string
  event \<^verbatim>\<open>hello\<close> is \<^verbatim>\<open>hello\<close>.
\<close>

theorem string_event_preview_is_verbatim:
  "py_str rt (PStr s) = Inr s \<and>
   (\<exists>r. lambda_handler rt now (PStr s) context = Inr r \<and>
        field r ''event_preview'' = Some (PStr (take 200 s)))"
proof -
  have "py_str rt (PStr s) = Inr s"
    by (simp add: py_str_def)
  then show ?thesis
    by (simp add: lambda_handler_returns lit_def)
qed

end
